theory Spec2Isabelle
  imports Main "HOL-Library.Word"
begin

unbundle bit_operations_syntax

section \<open>Virtual-memory layer of the emulator core (core/virtual\_memory.cpp)\<close>

subsection \<open>Machine types and build targets\<close>

type_synonym u8 = "8 word"
type_synonym u32 = "32 word"
type_synonym u64 = "64 word"

text \<open>
  The translation unit is compiled in one of three ways, selected by the preprocessor:
  with \<^verbatim>\<open>_WIN64\<close> defined, without it, and without it but with
  \<^verbatim>\<open>__APPLE__\<close> and \<^verbatim>\<open>__aarch64__\<close> (which adds the JIT write-protect
  toggle in \<^verbatim>\<open>memory_patch\<close>).
\<close>

datatype platform = Win64 | Posix | AppleAarch64

definition is_win64 :: "platform \<Rightarrow> bool" where
  "is_win64 p = (p = Win64)"

definition is_apple_aarch64 :: "platform \<Rightarrow> bool" where
  "is_apple_aarch64 p = (p = AppleAarch64)"

subsection \<open>Protection modes\<close>

text \<open>
  Modelled from the spec: the enumeration \<^verbatim>\<open>MemoryMode\<close> is declared in
  core/virtual\_memory.h, which is not among the sources. The data model lists its eight
  enumerators in this order, \<^verbatim>\<open>NoAccess\<close> first, so that a value-initialised
  \<^verbatim>\<open>MemoryMode{}\<close> is \<^verbatim>\<open>NoAccess\<close>.
\<close>

datatype MemoryMode =
  NoAccess | Read | Write | ReadWrite | Execute | ExecuteRead | ExecuteWrite | ExecuteReadWrite

definition MemoryMode_zero :: MemoryMode where
  "MemoryMode_zero = NoAccess"

text \<open>
  Modelled from the spec: \<^verbatim>\<open>containsExecuteMode\<close> is declared in
  core/virtual\_memory.h, which is not among the sources; it tells whether a mode
  "included execute permission".
\<close>

fun containsExecuteMode :: "MemoryMode \<Rightarrow> bool" where
  "containsExecuteMode Execute = True"
| "containsExecuteMode ExecuteRead = True"
| "containsExecuteMode ExecuteWrite = True"
| "containsExecuteMode ExecuteReadWrite = True"
| "containsExecuteMode _ = False"

subsection \<open>Native protection constants\<close>

text \<open>
  On POSIX the file declares \<^verbatim>\<open>enum PosixPageProtection\<close> from the
  \<^verbatim>\<open>PROT_*\<close> flags of sys/mman.h (1, 2 and 4 on Linux and macOS). On Windows
  the \<^verbatim>\<open>PAGE_*\<close> names are the constants of windows.h.
\<close>

definition PROT_READ :: u32 where "PROT_READ = 1"
definition PROT_WRITE :: u32 where "PROT_WRITE = 2"
definition PROT_EXEC :: u32 where "PROT_EXEC = 4"

definition PAGE_NOACCESS :: "platform \<Rightarrow> u32" where
  "PAGE_NOACCESS p = (if is_win64 p then 0x01 else 0)"

definition PAGE_READONLY :: "platform \<Rightarrow> u32" where
  "PAGE_READONLY p = (if is_win64 p then 0x02 else PROT_READ)"

definition PAGE_READWRITE :: "platform \<Rightarrow> u32" where
  "PAGE_READWRITE p = (if is_win64 p then 0x04 else PROT_READ OR PROT_WRITE)"

definition PAGE_EXECUTE :: "platform \<Rightarrow> u32" where
  "PAGE_EXECUTE p = (if is_win64 p then 0x10 else PROT_EXEC)"

definition PAGE_EXECUTE_READ :: "platform \<Rightarrow> u32" where
  "PAGE_EXECUTE_READ p = (if is_win64 p then 0x20 else PROT_EXEC OR PROT_READ)"

definition PAGE_EXECUTE_READWRITE :: "platform \<Rightarrow> u32" where
  "PAGE_EXECUTE_READWRITE p =
     (if is_win64 p then 0x40 else PROT_EXEC OR PROT_READ OR PROT_WRITE)"

subsection \<open>Protection-mode codec\<close>

text \<open>
  \<^verbatim>\<open>static u32 convertMemoryMode(MemoryMode mode)\<close>. The \<^verbatim>\<open>default\<close> label of
  the switch is not reached by any of the eight enumerators.
\<close>

fun convertMemoryMode :: "platform \<Rightarrow> MemoryMode \<Rightarrow> u32" where
  "convertMemoryMode p Read = PAGE_READONLY p"
| "convertMemoryMode p Write = PAGE_READWRITE p"
| "convertMemoryMode p ReadWrite = PAGE_READWRITE p"
| "convertMemoryMode p Execute = PAGE_EXECUTE p"
| "convertMemoryMode p ExecuteRead = PAGE_EXECUTE_READ p"
| "convertMemoryMode p ExecuteWrite = PAGE_EXECUTE_READWRITE p"
| "convertMemoryMode p ExecuteReadWrite = PAGE_EXECUTE_READWRITE p"
| "convertMemoryMode p NoAccess = PAGE_NOACCESS p"

text \<open>
  \<^verbatim>\<open>static MemoryMode convertMemoryMode(u32 mode)\<close>, the overload on the native
  value. The case labels are tried in the order of the switch.
\<close>

definition convertMemoryMode_u32 :: "platform \<Rightarrow> u32 \<Rightarrow> MemoryMode" where
  "convertMemoryMode_u32 p mode =
     (if mode = PAGE_NOACCESS p then NoAccess
      else if mode = PAGE_READONLY p then Read
      else if mode = PAGE_READWRITE p then ReadWrite
      else if mode = PAGE_EXECUTE p then Execute
      else if mode = PAGE_EXECUTE_READ p then ExecuteRead
      else if mode = PAGE_EXECUTE_READWRITE p then ExecuteReadWrite
      else NoAccess)"

text \<open>
  The equivalence classes of the specification, in its words: \<^verbatim>\<open>Write\<close> and
  \<^verbatim>\<open>ReadWrite\<close> are interchangeable, \<^verbatim>\<open>ExecuteWrite\<close> and
  \<^verbatim>\<open>ExecuteReadWrite\<close> are interchangeable, every other mode stands alone.
\<close>

definition same_mode_class :: "MemoryMode \<Rightarrow> MemoryMode \<Rightarrow> bool" where
  "same_mode_class a b =
     (a = b \<or> (a \<in> {Write, ReadWrite} \<and> b \<in> {Write, ReadWrite})
            \<or> (a \<in> {ExecuteWrite, ExecuteReadWrite} \<and> b \<in> {ExecuteWrite, ExecuteReadWrite}))"

subsection \<open>The process and the operating system\<close>

text \<open>
  The layer keeps no state of its own: everything it changes lives in the process. The
  record below holds the part of the process the functions touch: the byte stored at each
  address, the native protection the operating system holds for each mapped address
  (\<open>None\<close> for an address that is not mapped), the thread's last error code
  (\<^verbatim>\<open>GetLastError()\<close>, \<^verbatim>\<open>errno\<close>), the thread's JIT write-protect flag
  (\<^verbatim>\<open>pthread_jit_write_protect_np\<close>) and, in order, the native calls made and the
  lines logged.
\<close>

record MEM_ADDRESS_REQUIREMENTS =
  LowestStartingAddress :: u64
  HighestEndingAddress :: u64
  Alignment :: u64

text \<open>
  A native call with the arguments that vary; the arguments that are the same constant
  in every call (allocation type, mapping flags, file descriptor, offset, process handle)
  are left out.
\<close>

datatype native_call =
    VirtualAlloc u64 u64 u32
  | VirtualAlloc2 u64 u32 MEM_ADDRESS_REQUIREMENTS
  | Mmap u64 u64 u32
  | VirtualProtect u64 u64 u32
  | Mprotect u64 u64 u32
  | FlushInstructionCache u64 u64
  | Pthread_jit_write_protect_np bool

datatype event = Native native_call | LOG_ERROR string u32

record world =
  mem :: "u64 \<Rightarrow> u8"
  page_prot :: "u64 \<rightharpoonup> u32"
  last_error :: u32
  jit_write_protect :: bool
  journal :: "event list"

text \<open>
  What the operating system answers to a request is not decided by the program: it is an
  input of the model. \<open>Refuse e\<close> is a failing call that leaves the error code \<open>e\<close>;
  \<open>Grant x\<close> is a successful one (with the address chosen, for an allocation).
\<close>

datatype 'a os_reply = Refuse u32 | Grant 'a

text \<open>
  The two ways a call can end without returning: \<^verbatim>\<open>ASSERT\<close> halts the process
  when its condition is false, and a load or store of an unreachable byte faults. A
  failed call is \<open>Inl\<close> of the error and the process as it was left.
\<close>

datatype error = AssertionFailed | SegmentationFault

type_synonym 'a outcome = "(error \<times> world) + ('a \<times> world)"

fun outcome_world :: "'a outcome \<Rightarrow> world" where
  "outcome_world (Inl (e, w)) = w"
| "outcome_world (Inr (x, w)) = w"

fun outcome_value :: "'a outcome \<Rightarrow> error + 'a" where
  "outcome_value (Inl (e, w)) = Inl e"
| "outcome_value (Inr (x, w)) = Inr x"

definition MAP_FAILED :: u64 where
  "MAP_FAILED = - 1"

definition record_call :: "native_call \<Rightarrow> world \<Rightarrow> world" where
  "record_call c w = w\<lparr>journal := journal w @ [Native c]\<rparr>"

definition log_error :: "string \<Rightarrow> u32 \<Rightarrow> world \<Rightarrow> world" where
  "log_error fmt code w = w\<lparr>journal := journal w @ [LOG_ERROR fmt code]\<rparr>"

definition set_prot :: "(u64 \<rightharpoonup> u32) \<Rightarrow> u64 \<Rightarrow> u64 \<Rightarrow> u32 \<Rightarrow> (u64 \<rightharpoonup> u32)" where
  "set_prot tbl start len prot = (\<lambda>a. if a - start < len then Some prot else tbl a)"

text \<open>
  The native calls. A granted allocation or protection change gives the range the
  protection passed in; a refused call changes only the error code. \<open>VirtualProtect\<close>
  also reports the protection the first address of the range had before. What a fresh
  region contains is left open: no call below changes \<open>mem\<close>.
\<close>

definition os_VirtualAlloc :: "u64 os_reply \<Rightarrow> world \<Rightarrow> u64 \<Rightarrow> u64 \<Rightarrow> u32 \<Rightarrow> u64 \<times> world" where
  "os_VirtualAlloc reply w lpAddress dwSize flProtect =
     (let w1 = record_call (VirtualAlloc lpAddress dwSize flProtect) w in
      case reply of
        Refuse e \<Rightarrow> (0, w1\<lparr>last_error := e\<rparr>)
      | Grant ptr \<Rightarrow> (ptr, w1\<lparr>page_prot := set_prot (page_prot w1) ptr dwSize flProtect\<rparr>))"

definition os_VirtualAlloc2 ::
  "u64 os_reply \<Rightarrow> world \<Rightarrow> u64 \<Rightarrow> u32 \<Rightarrow> MEM_ADDRESS_REQUIREMENTS \<Rightarrow> u64 \<times> world" where
  "os_VirtualAlloc2 reply w dwSize flProtect req =
     (let w1 = record_call (VirtualAlloc2 dwSize flProtect req) w in
      case reply of
        Refuse e \<Rightarrow> (0, w1\<lparr>last_error := e\<rparr>)
      | Grant ptr \<Rightarrow> (ptr, w1\<lparr>page_prot := set_prot (page_prot w1) ptr dwSize flProtect\<rparr>))"

definition os_mmap :: "u64 os_reply \<Rightarrow> world \<Rightarrow> u64 \<Rightarrow> u64 \<Rightarrow> u32 \<Rightarrow> u64 \<times> world" where
  "os_mmap reply w addr len prot =
     (let w1 = record_call (Mmap addr len prot) w in
      case reply of
        Refuse e \<Rightarrow> (MAP_FAILED, w1\<lparr>last_error := e\<rparr>)
      | Grant ptr \<Rightarrow> (ptr, w1\<lparr>page_prot := set_prot (page_prot w1) ptr len prot\<rparr>))"

definition os_VirtualProtect ::
  "unit os_reply \<Rightarrow> world \<Rightarrow> u64 \<Rightarrow> u64 \<Rightarrow> u32 \<Rightarrow> u32 \<Rightarrow> bool \<times> u32 \<times> world" where
  "os_VirtualProtect reply w lpAddress dwSize flNewProtect old_protect =
     (let w1 = record_call (VirtualProtect lpAddress dwSize flNewProtect) w in
      case reply of
        Refuse e \<Rightarrow> (False, old_protect, w1\<lparr>last_error := e\<rparr>)
      | Grant _ \<Rightarrow>
          (True,
           (case page_prot w lpAddress of None \<Rightarrow> old_protect | Some q \<Rightarrow> q),
           w1\<lparr>page_prot := set_prot (page_prot w1) lpAddress dwSize flNewProtect\<rparr>))"

definition os_mprotect :: "unit os_reply \<Rightarrow> world \<Rightarrow> u64 \<Rightarrow> u64 \<Rightarrow> u32 \<Rightarrow> int \<times> world" where
  "os_mprotect reply w addr len prot =
     (let w1 = record_call (Mprotect addr len prot) w in
      case reply of
        Refuse e \<Rightarrow> (- 1, w1\<lparr>last_error := e\<rparr>)
      | Grant _ \<Rightarrow> (0, w1\<lparr>page_prot := set_prot (page_prot w1) addr len prot\<rparr>))"

definition os_FlushInstructionCache :: "unit os_reply \<Rightarrow> world \<Rightarrow> u64 \<Rightarrow> u64 \<Rightarrow> bool \<times> world" where
  "os_FlushInstructionCache reply w lpBaseAddress dwSize =
     (let w1 = record_call (FlushInstructionCache lpBaseAddress dwSize) w in
      case reply of
        Refuse e \<Rightarrow> (False, w1\<lparr>last_error := e\<rparr>)
      | Grant _ \<Rightarrow> (True, w1))"

definition os_pthread_jit_write_protect_np :: "bool \<Rightarrow> world \<Rightarrow> world" where
  "os_pthread_jit_write_protect_np enabled w =
     (record_call (Pthread_jit_write_protect_np enabled) w)\<lparr>jit_write_protect := enabled\<rparr>"

subsection \<open>Loads and stores of an 8-byte value\<close>

text \<open>
  Whether the thread may read or write a byte is decided by the protection of its page,
  with the access rights the system documents for each value: on Windows each
  \<^verbatim>\<open>PAGE_*\<close> constant names its rights, on POSIX they are the \<^verbatim>\<open>PROT_READ\<close>
  and \<^verbatim>\<open>PROT_WRITE\<close> bits. An unmapped byte can be neither read nor written.
\<close>

definition can_read :: "platform \<Rightarrow> u32 \<Rightarrow> bool" where
  "can_read p prot =
     (if is_win64 p
      then prot = PAGE_READONLY p \<or> prot = PAGE_READWRITE p
           \<or> prot = PAGE_EXECUTE_READ p \<or> prot = PAGE_EXECUTE_READWRITE p
      else prot AND PROT_READ \<noteq> 0)"

definition can_write :: "platform \<Rightarrow> u32 \<Rightarrow> bool" where
  "can_write p prot =
     (if is_win64 p
      then prot = PAGE_READWRITE p \<or> prot = PAGE_EXECUTE_READWRITE p
      else prot AND PROT_WRITE \<noteq> 0)"

definition readable :: "platform \<Rightarrow> world \<Rightarrow> u64 \<Rightarrow> bool" where
  "readable p w a = (case page_prot w a of None \<Rightarrow> False | Some prot \<Rightarrow> can_read p prot)"

definition writable :: "platform \<Rightarrow> world \<Rightarrow> u64 \<Rightarrow> bool" where
  "writable p w a = (case page_prot w a of None \<Rightarrow> False | Some prot \<Rightarrow> can_write p prot)"

text \<open>
  \<^verbatim>\<open>*ptr\<close> for a \<^verbatim>\<open>uint64_t*\<close>: eight bytes, least significant first (every
  supported target is little-endian).
\<close>

definition byte_of :: "u64 \<Rightarrow> nat \<Rightarrow> u8" where
  "byte_of v i = ucast (drop_bit (8 * i) v)"

fun u64_of_bytes :: "u8 list \<Rightarrow> u64" where
  "u64_of_bytes [] = 0"
| "u64_of_bytes (b # bs) = ucast b OR push_bit 8 (u64_of_bytes bs)"

definition cells :: "u64 \<Rightarrow> u64 list" where
  "cells a = map (\<lambda>i. a + of_nat i) [0..<8]"

definition peek64 :: "(u64 \<Rightarrow> u8) \<Rightarrow> u64 \<Rightarrow> u64" where
  "peek64 m a = u64_of_bytes (map m (cells a))"

definition poke64 :: "(u64 \<Rightarrow> u8) \<Rightarrow> u64 \<Rightarrow> u64 \<Rightarrow> (u64 \<Rightarrow> u8)" where
  "poke64 m a v = (\<lambda>x. if x - a < 8 then byte_of v (unat (x - a)) else m x)"

text \<open>
  The load \<^verbatim>\<open>*ptr\<close> faults (\<open>None\<close>) unless each of the eight bytes is readable; the
  store \<^verbatim>\<open>*ptr = value\<close> faults unless each of them is writable.
\<close>

definition load64 :: "platform \<Rightarrow> world \<Rightarrow> u64 \<Rightarrow> u64 option" where
  "load64 p w a =
     (if list_all (readable p w) (cells a) then Some (peek64 (mem w) a) else None)"

definition store64 :: "platform \<Rightarrow> world \<Rightarrow> u64 \<Rightarrow> u64 \<Rightarrow> world option" where
  "store64 p w a v =
     (if list_all (writable p w) (cells a) then Some (w\<lparr>mem := poke64 (mem w) a v\<rparr>) else None)"

subsection \<open>Region allocator\<close>

text \<open>\<^verbatim>\<open>u64 memory_alloc(u64 address, u64 size, MemoryMode mode)\<close>\<close>

definition memory_alloc ::
  "platform \<Rightarrow> u64 os_reply \<Rightarrow> world \<Rightarrow> u64 \<Rightarrow> u64 \<Rightarrow> MemoryMode \<Rightarrow> u64 \<times> world" where
  "memory_alloc p reply w address sz mode =
     (if is_win64 p then
        (let (ptr, w1) = os_VirtualAlloc reply w address sz (convertMemoryMode p mode) in
         if ptr = 0
         then (let err = last_error w1 in (ptr, log_error ''VirtualAlloc() failed: 0x{:X}'' err w1))
         else (ptr, w1))
      else
        (let (ptr, w1) = os_mmap reply w address sz (PROT_EXEC OR PROT_READ OR PROT_WRITE) in
         if ptr = MAP_FAILED
         then (ptr, log_error ''mmap() failed: {}'' (last_error w1) w1)
         else (ptr, w1)))"

text \<open>\<^verbatim>\<open>static u64 AlignUp(u64 pos, u64 align)\<close>\<close>

definition AlignUp :: "u64 \<Rightarrow> u64 \<Rightarrow> u64" where
  "AlignUp pos align = (if align \<noteq> 0 then (pos + (align - 1)) AND NOT (align - 1) else pos)"

text \<open>
  \<^verbatim>\<open>u64 memory_alloc_aligned(u64 address, u64 size, MemoryMode mode, u64 alignment)\<close>.
  \<^verbatim>\<open>USER_MIN\<close> and \<^verbatim>\<open>USER_MAX\<close> are constants of core/virtual\_memory.h, which
  is not among the sources: they are parameters here.
\<close>

definition memory_alloc_aligned ::
  "platform \<Rightarrow> u64 \<Rightarrow> u64 \<Rightarrow> u64 os_reply \<Rightarrow> world \<Rightarrow> u64 \<Rightarrow> u64 \<Rightarrow> MemoryMode \<Rightarrow> u64
     \<Rightarrow> u64 outcome" where
  "memory_alloc_aligned p USER_MIN USER_MAX reply w address sz mode alignment =
     (if is_win64 p then
        (let req = \<lparr>LowestStartingAddress =
                      (if address = 0 then USER_MIN else AlignUp address alignment),
                    HighestEndingAddress = USER_MAX,
                    Alignment = alignment\<rparr>;
             (ptr, w1) = os_VirtualAlloc2 reply w sz (convertMemoryMode p mode) req in
         if ptr = 0
         then (let err = last_error w1 in
               Inr (ptr, log_error ''VirtualAlloc2() failed: 0x{:X}'' err w1))
         else Inr (ptr, w1))
      else
        (let hint_address = (if address = 0 then USER_MIN else AlignUp address alignment);
             (ptr, w1) = os_mmap reply w hint_address sz (convertMemoryMode p mode) in
         if ptr \<noteq> MAP_FAILED then Inr (ptr, w1) else Inl (AssertionFailed, w1)))"

subsection \<open>Region protector\<close>

text \<open>
  \<^verbatim>\<open>bool memory_protect(u64 address, u64 size, MemoryMode mode, MemoryMode* old_mode)\<close>.
  The out-pointer is \<open>None\<close> for \<^verbatim>\<open>nullptr\<close> and \<open>Some m\<close> for a pointer to a cell
  holding \<open>m\<close>; the value returned is paired with the cell after the call.
\<close>

definition memory_protect ::
  "platform \<Rightarrow> unit os_reply \<Rightarrow> world \<Rightarrow> u64 \<Rightarrow> u64 \<Rightarrow> MemoryMode \<Rightarrow> MemoryMode option
     \<Rightarrow> (bool \<times> MemoryMode option) outcome" where
  "memory_protect p reply w address sz mode old_mode =
     (if is_win64 p then
        (let (ok, old_protect, w1) =
               os_VirtualProtect reply w address sz (convertMemoryMode p mode) 0 in
         if \<not> ok
         then (let err = last_error w1 in
               Inr ((False, old_mode), log_error ''VirtualProtect() failed: 0x{:X}'' err w1))
         else Inr ((True,
                    (case old_mode of None \<Rightarrow> None
                     | Some _ \<Rightarrow> Some (convertMemoryMode_u32 p old_protect))),
                   w1))
      else
        (let (ret, w1) = os_mprotect reply w address sz (convertMemoryMode p mode) in
         if ret \<noteq> 0 then Inl (AssertionFailed, w1) else Inr ((True, old_mode), w1)))"

subsection \<open>Instruction-cache synchronizer\<close>

text \<open>\<^verbatim>\<open>bool memory_flush(u64 address, u64 size)\<close>\<close>

definition memory_flush :: "platform \<Rightarrow> unit os_reply \<Rightarrow> world \<Rightarrow> u64 \<Rightarrow> u64 \<Rightarrow> bool \<times> world" where
  "memory_flush p reply w address sz =
     (if is_win64 p then
        (let (ok, w1) = os_FlushInstructionCache reply w address sz in
         if \<not> ok
         then (let err = last_error w1 in
               (False, log_error ''FlushInstructionCache() failed: 0x{:X}'' err w1))
         else (True, w1))
      else (True, w))"

subsection \<open>Word patcher\<close>

text \<open>
  \<^verbatim>\<open>bool memory_patch(u64 vaddr, u64 value)\<close>. Both calls of
  \<^verbatim>\<open>memory_protect\<close> are commented out in the source, so \<^verbatim>\<open>old_mode\<close> keeps
  the value it was initialised with and the protection of the target is what the caller
  left: the comparison reads \<^verbatim>\<open>*ptr\<close> and the assignment writes it, and either can
  fault. \<open>reply\<close> is the answer the operating system would give to the flush.
\<close>

definition memory_patch ::
  "platform \<Rightarrow> unit os_reply \<Rightarrow> world \<Rightarrow> u64 \<Rightarrow> u64 \<Rightarrow> bool outcome" where
  "memory_patch p reply w vaddr val =
     (let old_mode = MemoryMode_zero;
          w1 = (if is_apple_aarch64 p then os_pthread_jit_write_protect_np False w else w)
      in case load64 p w1 vaddr of
           None \<Rightarrow> Inl (SegmentationFault, w1)
         | Some cur \<Rightarrow>
             (let ret = (cur \<noteq> val) in
              case store64 p w1 vaddr val of
                None \<Rightarrow> Inl (SegmentationFault, w1)
              | Some w2 \<Rightarrow>
                  (let w3 = (if containsExecuteMode old_mode
                             then snd (memory_flush p reply w2 vaddr 8) else w2);
                       w4 = (if is_apple_aarch64 p
                             then os_pthread_jit_write_protect_np True w3 else w3)
                   in Inr (ret, w4))))"

subsection \<open>Reading a journal, and a sample process\<close>

fun native_calls :: "event list \<Rightarrow> native_call list" where
  "native_calls [] = []"
| "native_calls (Native c # es) = c # native_calls es"
| "native_calls (LOG_ERROR fmt code # es) = native_calls es"

fun log_lines :: "event list \<Rightarrow> (string \<times> u32) list" where
  "log_lines [] = []"
| "log_lines (Native c # es) = log_lines es"
| "log_lines (LOG_ERROR fmt code # es) = (fmt, code) # log_lines es"

text \<open>The events a call added to the journal it started from.\<close>

definition new_events :: "world \<Rightarrow> world \<Rightarrow> event list" where
  "new_events w w' = drop (length (journal w)) (journal w')"

text \<open>
  The address from which the system searches for free space: the lowest starting address
  of the requirements handed to \<^verbatim>\<open>VirtualAlloc2\<close>, the address argument of
  \<^verbatim>\<open>mmap\<close>.
\<close>

fun lower_search_bound :: "native_call \<Rightarrow> u64 option" where
  "lower_search_bound (VirtualAlloc2 len prot req) = Some (LowestStartingAddress req)"
| "lower_search_bound (Mmap addr len prot) = Some addr"
| "lower_search_bound _ = None"

fun is_protect_call :: "native_call \<Rightarrow> bool" where
  "is_protect_call (VirtualProtect addr len prot) = True"
| "is_protect_call (Mprotect addr len prot) = True"
| "is_protect_call _ = False"

fun is_flush_call :: "native_call \<Rightarrow> bool" where
  "is_flush_call (FlushInstructionCache addr len) = True"
| "is_flush_call _ = False"

text \<open>
  A process whose only mapping is one zero-filled region with the given native
  protection, before any call of the layer.
\<close>

definition fresh_region :: "u64 \<Rightarrow> u64 \<Rightarrow> u32 \<Rightarrow> world" where
  "fresh_region start len prot =
     \<lparr>mem = (\<lambda>a. 0),
      page_prot = set_prot Map.empty start len prot,
      last_error = 0,
      jit_write_protect = True,
      journal = []\<rparr>"

section \<open>Properties\<close>

lemmas page_consts =
  PAGE_NOACCESS_def PAGE_READONLY_def PAGE_READWRITE_def PAGE_EXECUTE_def
  PAGE_EXECUTE_READ_def PAGE_EXECUTE_READWRITE_def PROT_READ_def PROT_WRITE_def
  PROT_EXEC_def is_win64_def

lemma decode_encode_canonical:
  "convertMemoryMode_u32 p (convertMemoryMode p m) =
     (case m of Write \<Rightarrow> ReadWrite | ExecuteWrite \<Rightarrow> ExecuteReadWrite | _ \<Rightarrow> m)"
  by (cases m; cases p) (simp_all add: convertMemoryMode_u32_def page_consts)

text \<open>
  C1. For every mode \<open>m\<close> and on every build target, decoding the native encoding of
  \<open>m\<close> gives a mode in the equivalence class of \<open>m\<close>.
\<close>

theorem C1_decode_encode_same_class:
  "same_mode_class (convertMemoryMode_u32 p (convertMemoryMode p m)) m"
  using decode_encode_canonical [of p m]
  by (cases m) (simp_all add: same_mode_class_def)


subsection \<open>Rounding up to an alignment\<close>

lemma least_multiple_ge:
  fixes a n :: nat
  assumes "0 < a"
  shows "(LEAST m. a dvd m \<and> n \<le> m) = ((n + a - 1) div a) * a"
proof (rule Least_equality)
  define s where "s = n + a - 1"
  have "s = (s div a) * a + s mod a" by simp
  moreover have "s mod a \<le> a - 1" using assms
    by (metis Suc_pred' less_Suc_eq_le mod_less_divisor)
  moreover have "s = n + (a - 1)" using assms by (simp add: s_def)
  ultimately have "n \<le> (s div a) * a" by linarith
  then show "a dvd ((n + a - 1) div a) * a \<and> n \<le> ((n + a - 1) div a) * a"
    by (simp add: s_def)
next
  fix y assume "a dvd y \<and> n \<le> y"
  then obtain q where q: "y = a * q" and le: "n \<le> y" by (auto simp: dvd_def)
  define b where "b = a - 1"
  have b: "b < a" "a * q + a - 1 = b + q * a"
    using assms by (simp_all add: b_def algebra_simps)
  have "(n + a - 1) div a \<le> (a * q + a - 1) div a"
    using le q by (intro div_le_mono) simp
  also have "\<dots> = (b + q * a) div a" by (simp only: b)
  also have "\<dots> = q" using b(1) by simp
  finally show "((n + a - 1) div a) * a \<le> y" using q by simp
qed

lemma and_not_mask_minus:
  fixes x :: "'a::len word"
  shows "x AND NOT (mask k) = x - take_bit k x"
proof -
  have "x AND NOT (mask k) = push_bit k (drop_bit k x)"
    by (rule bit_word_eqI) (auto simp: bit_simps)
  moreover have "push_bit k (drop_bit k x) + take_bit k x = x"
    by (rule bits_ident)
  ultimately show ?thesis
    by (metis add_diff_cancel_right')
qed

lemma AlignUp_pow2:
  assumes "k < 64"
  shows "AlignUp pos (2 ^ k) = word_of_nat (((unat pos + 2 ^ k - 1) div 2 ^ k) * 2 ^ k)"
proof -
  define s where "s = unat pos + 2 ^ k - 1"
  have nz: "(2 ^ k :: u64) \<noteq> 0" using assms by simp
  define t :: nat where "t = 2 ^ k - 1"
  have t: "s = unat pos + t" "(word_of_nat t :: u64) = 2 ^ k - 1"
    by (simp_all add: s_def t_def)
  have "pos + (2 ^ k - 1) = (word_of_nat s :: u64)"
    by (simp only: t of_nat_add of_nat_unat ucast_id)
  moreover have "(2 ^ k - 1 :: u64) = mask k" by (simp add: mask_eq_decr_exp)
  ultimately have "AlignUp pos (2 ^ k) = word_of_nat s AND NOT (mask k)"
    using nz by (simp add: AlignUp_def)
  also have "\<dots> = word_of_nat s - take_bit k (word_of_nat s)"
    by (rule and_not_mask_minus)
  also have "take_bit k (word_of_nat s :: u64) = word_of_nat (s mod 2 ^ k)"
    by (simp only: take_bit_of_nat take_bit_eq_mod [of k s])
  also have "word_of_nat s - word_of_nat (s mod 2 ^ k) = (word_of_nat (s - s mod 2 ^ k) :: u64)"
    by simp
  also have "s - s mod 2 ^ k = (s div 2 ^ k) * 2 ^ k"
    by (simp add: minus_mod_eq_div_mult)
  finally show ?thesis by (simp add: s_def)
qed

lemma AlignUp_pow2_least:
  assumes "k < 64"
  shows "AlignUp pos (2 ^ k) =
           word_of_nat (LEAST m. unat (2 ^ k :: u64) dvd m \<and> unat pos \<le> m)"
proof -
  from assms have lt: "(2 :: nat) ^ k < 2 ^ 64"
    by (rule power_strict_increasing) simp
  have "unat (word_of_nat (2 ^ k) :: u64) = 2 ^ k mod 2 ^ LENGTH(64)"
    by (rule unat_of_nat)
  with lt have u: "unat (2 ^ k :: u64) = 2 ^ k" by simp
  have "(LEAST m. unat (2 ^ k :: u64) dvd m \<and> unat pos \<le> m) =
          ((unat pos + 2 ^ k - 1) div 2 ^ k) * 2 ^ k"
    unfolding u by (rule least_multiple_ge) simp
  then show ?thesis
    using AlignUp_pow2 [OF assms, of pos] by simp
qed

text \<open>
  C9. For a power of two \<open>align = 2 ^ k\<close> that fits 64 bits, \<open>AlignUp pos align\<close> is
  the least multiple of \<open>align\<close> that is at least \<open>pos\<close>, taken modulo \<open>2 ^ 64\<close>;
  and \<open>AlignUp pos 0\<close> is \<open>pos\<close>.
\<close>

theorem C9_AlignUp_least_multiple:
  "(align = 2 ^ k \<and> k < 64 \<longrightarrow>
      AlignUp pos align = word_of_nat (LEAST m. unat align dvd m \<and> unat pos \<le> m))
   \<and> AlignUp pos 0 = pos"
proof (intro conjI impI)
  assume a: "align = 2 ^ k \<and> k < 64"
  then have "k < 64" by simp
  then have lt: "(2 :: nat) ^ k < 2 ^ 64"
    by (rule power_strict_increasing) simp
  have "unat (word_of_nat (2 ^ k) :: u64) = 2 ^ k mod 2 ^ LENGTH(64)"
    by (rule unat_of_nat)
  with lt have "unat (word_of_nat (2 ^ k) :: u64) = 2 ^ k" by simp
  with a have u: "unat align = 2 ^ k" by simp
  have "(LEAST m. unat align dvd m \<and> unat pos \<le> m) = ((unat pos + 2 ^ k - 1) div 2 ^ k) * 2 ^ k"
    unfolding u by (rule least_multiple_ge) simp
  then show "AlignUp pos align = word_of_nat (LEAST m. unat align dvd m \<and> unat pos \<le> m)"
    using a AlignUp_pow2 [of k pos] by simp
next
  show "AlignUp pos 0 = pos" by (simp add: AlignUp_def)
qed

theorem C9_AlignUp_witness:
  "(4096 :: u64) = 2 ^ 12 \<and> (12 :: nat) < 64
   \<and> AlignUp 5 4096 = word_of_nat (LEAST m. unat (4096 :: u64) dvd m \<and> unat (5 :: u64) \<le> m)
   \<and> AlignUp 5 4096 = 4096
   \<and> AlignUp 5 0 = 5"
  using C9_AlignUp_least_multiple [of 4096 12 5] by (simp add: AlignUp_def)

subsection \<open>Eight-byte loads and stores\<close>

lemma upt8: "[0..<8] = [0, 1, 2, 3, 4, 5, 6, 7::nat]"
  by code_simp

lemma cells8: "cells a = [a, a + 1, a + 2, a + 3, a + 4, a + 5, a + 6, a + 7]"
  by (simp add: cells_def upt8)

lemma set_cells: "x \<in> set (cells a) \<longleftrightarrow> x - a < 8"
proof
  assume "x \<in> set (cells a)"
  then obtain i where "i < 8" "x = a + word_of_nat i"
    by (auto simp: cells_def)
  then have "unat (x - a) < 8" by (simp add: unat_of_nat)
  then show "x - a < 8" by (simp add: word_less_nat_alt)
next
  assume "x - a < 8"
  then have "unat (x - a) < 8" by (simp add: word_less_nat_alt)
  moreover have "x = a + word_of_nat (unat (x - a))" by simp
  ultimately show "x \<in> set (cells a)"
    unfolding cells_def by (metis (no_types, lifting) atLeastLessThan_iff image_eqI set_map set_upt zero_le)
qed

lemma bit_u64_of_bytes:
  "bit (u64_of_bytes bs) n \<longleftrightarrow> n < 64 \<and> n div 8 < length bs \<and> bit (bs ! (n div 8)) (n mod 8)"
proof (induction bs arbitrary: n)
  case Nil
  then show ?case by simp
next
  case (Cons b bs)
  show ?case
  proof (cases "n < 8")
    case True
    then show ?thesis by (simp add: bit_simps)
  next
    case False
    then have "n div 8 = Suc ((n - 8) div 8)" "n mod 8 = (n - 8) mod 8"
      by (simp_all add: le_div_geq le_mod_geq)
    moreover have "\<not> bit b n"
      using False bit_imp_le_length [of b n] by auto
    ultimately show ?thesis using False Cons.IH [of "n - 8"]
      by (auto simp add: bit_simps)
  qed
qed

lemma u64_of_bytes_of:
  "u64_of_bytes (map (byte_of v) [0..<8]) = v"
proof (rule bit_word_eqI)
  fix n assume "n < LENGTH(64)"
  then have "n div 8 < 8" by simp
  then show "bit (u64_of_bytes (map (byte_of v) [0..<8])) n \<longleftrightarrow> bit v n"
    using \<open>n < LENGTH(64)\<close> by (simp add: bit_u64_of_bytes byte_of_def bit_simps)
qed

lemma byte_of_u64_of_bytes:
  "length bs = 8 \<Longrightarrow> i < 8 \<Longrightarrow> byte_of (u64_of_bytes bs) i = bs ! i"
  by (rule bit_word_eqI) (simp add: bit_u64_of_bytes byte_of_def bit_simps)

lemma peek64_poke64: "peek64 (poke64 m a v) a = v"
proof -
  have in_range: "(a + word_of_nat i) - a < (8 :: u64)" if "i < 8" for i
    using that by (simp add: word_less_nat_alt unat_of_nat)
  have off: "unat ((a + word_of_nat i) - a :: u64) = i" if "i < 8" for i
    using that by (simp add: unat_of_nat)
  have "map (poke64 m a v) (cells a) = map (byte_of v) [0..<8]"
    using in_range off by (simp add: cells_def poke64_def)
  then show ?thesis
    by (simp add: peek64_def u64_of_bytes_of)
qed

lemma poke64_same: "poke64 m a (peek64 m a) = m"
proof (rule ext)
  fix x
  show "poke64 m a (peek64 m a) x = m x"
  proof (cases "x - a < 8")
    case False
    then show ?thesis by (simp add: poke64_def)
  next
    case True
    define i where "i = unat (x - a)"
    have i: "i < 8" using True by (simp add: i_def word_less_nat_alt)
    have x: "x = a + word_of_nat i" by (simp add: i_def)
    have "map m (cells a) ! i = m x"
      using i by (simp add: cells_def x)
    moreover have "byte_of (peek64 m a) i = map m (cells a) ! i"
      unfolding peek64_def by (rule byte_of_u64_of_bytes) (simp_all add: cells_def i)
    ultimately show ?thesis using True
      by (simp add: poke64_def i_def)
  qed
qed

lemma poke64_frame: "x \<notin> set (cells a) \<Longrightarrow> poke64 m a v x = m x"
  by (simp add: set_cells poke64_def)

subsection \<open>The word patcher\<close>

text \<open>The access rights depend on the protection table alone.\<close>

lemma access_updates:
  "readable p (w\<lparr>mem := m\<rparr>) = readable p w"
  "readable p (w\<lparr>journal := j\<rparr>) = readable p w"
  "readable p (w\<lparr>jit_write_protect := b\<rparr>) = readable p w"
  "writable p (w\<lparr>mem := m\<rparr>) = writable p w"
  "writable p (w\<lparr>journal := j\<rparr>) = writable p w"
  "writable p (w\<lparr>jit_write_protect := b\<rparr>) = writable p w"
  by (simp_all add: readable_def writable_def fun_eq_iff)

text \<open>What \<^verbatim>\<open>memory_patch\<close> comes to, once the dead flush is removed.\<close>

lemma memory_patch_result:
  "memory_patch p reply w vaddr val =
     (let w1 = (if is_apple_aarch64 p then os_pthread_jit_write_protect_np False w else w)
      in if list_all (readable p w) (cells vaddr) \<and> list_all (writable p w) (cells vaddr)
         then Inr (peek64 (mem w) vaddr \<noteq> val,
                   (if is_apple_aarch64 p
                    then os_pthread_jit_write_protect_np True
                           (w1\<lparr>mem := poke64 (mem w) vaddr val\<rparr>)
                    else w\<lparr>mem := poke64 (mem w) vaddr val\<rparr>))
         else Inl (SegmentationFault, w1))"
  by (simp add: memory_patch_def MemoryMode_zero_def Let_def load64_def store64_def
      access_updates os_pthread_jit_write_protect_np_def record_call_def)

lemma fresh_region_cells:
  "list_all (readable p (fresh_region 0x10000 0x1000 prot)) (cells 0x10000) = can_read p prot"
  "list_all (writable p (fresh_region 0x10000 0x1000 prot)) (cells 0x10000) = can_write p prot"
  by (simp_all add: cells8 readable_def writable_def fresh_region_def set_prot_def)

lemma fresh_region_peek64:
  "peek64 (mem (fresh_region start len prot)) a = 0"
  by (simp add: peek64_def cells8 fresh_region_def)

text \<open>
  C3 does not hold for a word that can be read but not written: on a region protected
  \<^verbatim>\<open>PAGE_READONLY\<close> whose eight bytes at \<open>0x10000\<close> hold 0, the store of
  \<^verbatim>\<open>memory_patch\<close> faults, for a new value and for the value already there.
\<close>

theorem C3_patch_of_read_only_word_faults:
  "load64 Win64 (fresh_region 0x10000 0x1000 (PAGE_READONLY Win64)) 0x10000 = Some 0
   \<and> outcome_value (memory_patch Win64 (Grant ())
        (fresh_region 0x10000 0x1000 (PAGE_READONLY Win64)) 0x10000 5) = Inl SegmentationFault
   \<and> outcome_value (memory_patch Win64 (Grant ())
        (fresh_region 0x10000 0x1000 (PAGE_READONLY Win64)) 0x10000 0) = Inl SegmentationFault"
  by (simp add: memory_patch_result load64_def fresh_region_cells fresh_region_peek64
      can_read_def can_write_def page_consts is_apple_aarch64_def)

text \<open>
  C3, amended. When the eight bytes at \<open>addr\<close> are writable and hold the value \<open>old\<close>,
  \<^verbatim>\<open>memory_patch\<close> returns, its result is true exactly when \<open>old\<close> differs from
  \<open>v\<close>, afterwards the eight bytes at \<open>addr\<close> hold \<open>v\<close>, and when \<open>old\<close> equals \<open>v\<close>
  every byte of memory is as before.
\<close>

theorem C3_memory_patch_changed:
  "load64 p w addr = Some old \<Longrightarrow> list_all (writable p w) (cells addr) \<Longrightarrow>
     \<exists>w'. memory_patch p reply w addr v = Inr (old \<noteq> v, w')
          \<and> load64 p w' addr = Some v
          \<and> (old = v \<longrightarrow> mem w' = mem w)"
  by (cases "is_apple_aarch64 p")
    (auto simp add: memory_patch_result Let_def os_pthread_jit_write_protect_np_def
      record_call_def load64_def access_updates peek64_poke64 poke64_same split: if_splits)

theorem C3_memory_patch_witness:
  "load64 Posix (fresh_region 0x10000 0x1000 7) 0x10000 = Some 0
   \<and> list_all (writable Posix (fresh_region 0x10000 0x1000 7)) (cells 0x10000)
   \<and> (\<exists>w'. memory_patch Posix (Grant ()) (fresh_region 0x10000 0x1000 7) 0x10000 0 = Inr (False, w')
          \<and> load64 Posix w' 0x10000 = Some 0
          \<and> mem w' = mem (fresh_region 0x10000 0x1000 7))
   \<and> (\<exists>w'. memory_patch Posix (Grant ()) (fresh_region 0x10000 0x1000 7) 0x10000 5 = Inr (True, w')
          \<and> load64 Posix w' 0x10000 = Some 5)"
proof -
  have h: "load64 Posix (fresh_region 0x10000 0x1000 7) 0x10000 = Some 0"
    by (simp add: load64_def fresh_region_cells fresh_region_peek64 can_read_def page_consts)
  have wr: "list_all (writable Posix (fresh_region 0x10000 0x1000 7)) (cells 0x10000)"
    by (simp add: fresh_region_cells can_write_def page_consts)
  from C3_memory_patch_changed [OF h wr, of "Grant ()" 0]
       C3_memory_patch_changed [OF h wr, of "Grant ()" 5] h wr
  show ?thesis by simp
qed

text \<open>
  C10. Whatever a call of \<^verbatim>\<open>memory_patch\<close> does, it leaves every byte outside the
  eight cells \<open>vaddr, \<dots>, vaddr + 7\<close> as it was, leaves the protection of every address
  as it was, and makes no native call that changes a protection.
\<close>

theorem C10_memory_patch_frame:
  "(\<forall>a. a \<notin> set (cells vaddr) \<longrightarrow>
        mem (outcome_world (memory_patch p reply w vaddr v)) a = mem w a)
   \<and> page_prot (outcome_world (memory_patch p reply w vaddr v)) = page_prot w
   \<and> filter is_protect_call
         (native_calls (new_events w (outcome_world (memory_patch p reply w vaddr v)))) = []"
  by (simp add: memory_patch_result Let_def os_pthread_jit_write_protect_np_def
      record_call_def new_events_def poke64_frame)

theorem C10_memory_patch_frame_witness:
  "0x10008 \<notin> set (cells (0x10000 :: u64))
   \<and> outcome_value (memory_patch Posix (Grant ()) (fresh_region 0x10000 0x1000 7) 0x10000 5)
       = Inr True
   \<and> mem (outcome_world (memory_patch Posix (Grant ()) (fresh_region 0x10000 0x1000 7) 0x10000 5))
         0x10008 = mem (fresh_region 0x10000 0x1000 7) 0x10008
   \<and> mem (outcome_world (memory_patch Posix (Grant ()) (fresh_region 0x10000 0x1000 7) 0x10000 5))
         0x10000 = 5
   \<and> page_prot (outcome_world (memory_patch Posix (Grant ()) (fresh_region 0x10000 0x1000 7)
         0x10000 5)) = page_prot (fresh_region 0x10000 0x1000 7)"
proof -
  have c: "0x10008 \<notin> set (cells (0x10000 :: u64))"
    by (simp add: cells8)
  have r: "memory_patch Posix (Grant ()) (fresh_region 0x10000 0x1000 7) 0x10000 5 =
     Inr (True, (fresh_region 0x10000 0x1000 7)
                  \<lparr>mem := poke64 (mem (fresh_region 0x10000 0x1000 7)) 0x10000 5\<rparr>)"
    by (simp add: memory_patch_result fresh_region_cells fresh_region_peek64
        can_read_def can_write_def page_consts is_apple_aarch64_def)
  from C10_memory_patch_frame [of "0x10000" Posix "Grant ()" "fresh_region 0x10000 0x1000 7" 5] c
  have "mem (outcome_world (memory_patch Posix (Grant ()) (fresh_region 0x10000 0x1000 7) 0x10000 5))
         0x10008 = mem (fresh_region 0x10000 0x1000 7) 0x10008
     \<and> page_prot (outcome_world (memory_patch Posix (Grant ()) (fresh_region 0x10000 0x1000 7)
         0x10000 5)) = page_prot (fresh_region 0x10000 0x1000 7)"
    by blast
  moreover have "mem (outcome_world (memory_patch Posix (Grant ()) (fresh_region 0x10000 0x1000 7)
      0x10000 5)) 0x10000 = 5"
    by (simp add: r poke64_def byte_of_def)
  ultimately show ?thesis using c r by simp
qed

subsection \<open>Allocation, protection and flushing\<close>

lemmas os_calls =
  os_VirtualAlloc_def os_VirtualAlloc2_def os_mmap_def os_VirtualProtect_def os_mprotect_def
  os_FlushInstructionCache_def record_call_def log_error_def

lemma memory_alloc_win64_protection:
  "0 < sz \<Longrightarrow>
     page_prot (snd (memory_alloc Win64 (Grant ptr) w address sz mode)) ptr =
       Some (convertMemoryMode Win64 mode)"
  by (simp add: memory_alloc_def is_win64_def os_calls set_prot_def Let_def)

text \<open>
  C2. On Windows the region \<^verbatim>\<open>memory_alloc\<close> creates has the native encoding of the
  requested mode (lemma \<open>memory_alloc_win64_protection\<close>). On POSIX it does not: a
  request for \<^verbatim>\<open>Read\<close> that the system grants at \<open>0x20000\<close> creates a region
  protected \<^verbatim>\<open>PROT_EXEC | PROT_READ | PROT_WRITE\<close>, while the encoding of
  \<^verbatim>\<open>Read\<close> is \<^verbatim>\<open>PROT_READ\<close>.
\<close>

theorem C2_posix_alloc_ignores_mode:
  "fst (memory_alloc Posix (Grant 0x20000) (fresh_region 0x10000 0x1000 7) 0 0x1000 Read) = 0x20000
   \<and> page_prot (snd (memory_alloc Posix (Grant 0x20000) (fresh_region 0x10000 0x1000 7) 0 0x1000 Read))
         0x20000 = Some (PROT_EXEC OR PROT_READ OR PROT_WRITE)
   \<and> convertMemoryMode Posix Read = PROT_READ
   \<and> PROT_READ \<noteq> (PROT_EXEC OR PROT_READ OR PROT_WRITE)"
  by (simp add: memory_alloc_def os_calls set_prot_def Let_def page_consts MAP_FAILED_def)

lemma memory_patch_never_flushes:
  "filter is_flush_call
     (native_calls (new_events w (outcome_world (memory_patch p reply w vaddr val)))) = []"
  by (simp add: memory_patch_result Let_def os_pthread_jit_write_protect_np_def
      record_call_def new_events_def)

text \<open>
  C4. \<^verbatim>\<open>memory_patch\<close> never reaches \<^verbatim>\<open>memory_flush\<close> (lemma
  \<open>memory_patch_never_flushes\<close>): \<^verbatim>\<open>old_mode\<close> is never assigned. On Windows, a
  patch of a region protected \<^verbatim>\<open>PAGE_EXECUTE_READWRITE\<close> returns true and makes no
  native call at all, so no \<^verbatim>\<open>FlushInstructionCache\<close> on the eight bytes written.
\<close>

theorem C4_patch_of_executable_region_not_flushed:
  "page_prot (fresh_region 0x10000 0x1000 (PAGE_EXECUTE_READWRITE Win64)) 0x10000
     = Some (PAGE_EXECUTE_READWRITE Win64)
   \<and> containsExecuteMode (convertMemoryMode_u32 Win64 (PAGE_EXECUTE_READWRITE Win64))
   \<and> outcome_value (memory_patch Win64 (Grant ())
        (fresh_region 0x10000 0x1000 (PAGE_EXECUTE_READWRITE Win64)) 0x10000 5) = Inr True
   \<and> journal (outcome_world (memory_patch Win64 (Grant ())
        (fresh_region 0x10000 0x1000 (PAGE_EXECUTE_READWRITE Win64)) 0x10000 5)) = []"
  by (simp add: memory_patch_result fresh_region_cells fresh_region_peek64
      can_read_def can_write_def is_apple_aarch64_def)
     (simp add: fresh_region_def set_prot_def convertMemoryMode_u32_def page_consts)

lemma memory_protect_win64_old_mode:
  "page_prot w address = Some old \<Longrightarrow>
     outcome_value (memory_protect Win64 (Grant ()) w address sz mode (Some cell)) =
       Inr (True, Some (convertMemoryMode_u32 Win64 old))"
  by (simp add: memory_protect_def is_win64_def os_calls Let_def)

text \<open>
  C5. On Windows a successful \<^verbatim>\<open>memory_protect\<close> stores the decoded previous
  protection through the out-pointer (lemma \<open>memory_protect_win64_old_mode\<close>). On POSIX
  it does not: for a region protected \<^verbatim>\<open>PROT_READ\<close>, which decodes to
  \<^verbatim>\<open>Read\<close>, a successful call leaves the cell holding what it held before, here
  \<^verbatim>\<open>Execute\<close>.
\<close>

theorem C5_posix_protect_leaves_old_mode:
  "page_prot (fresh_region 0x10000 0x1000 (PAGE_READONLY Posix)) 0x10000 = Some (PAGE_READONLY Posix)
   \<and> convertMemoryMode_u32 Posix (PAGE_READONLY Posix) = Read
   \<and> outcome_value (memory_protect Posix (Grant ())
        (fresh_region 0x10000 0x1000 (PAGE_READONLY Posix)) 0x10000 0x1000 ReadWrite (Some Execute))
       = Inr (True, Some Execute)"
  by (simp add: memory_protect_def os_calls Let_def fresh_region_def set_prot_def
      convertMemoryMode_u32_def page_consts)

text \<open>
  C6 does not hold on POSIX: when \<^verbatim>\<open>mmap\<close> is refused,
  \<^verbatim>\<open>memory_alloc_aligned\<close> halts on \<^verbatim>\<open>ASSERT(ptr != MAP_FAILED)\<close>; it returns
  no sentinel and logs nothing.
\<close>

theorem C6_posix_alloc_aligned_failure_halts:
  "outcome_value (memory_alloc_aligned Posix 0x1000000000 0xFBFFFFFFFF (Refuse 12)
      (fresh_region 0x10000 0x1000 7) 0 0x1000 ReadWrite 0x1000) = Inl AssertionFailed
   \<and> log_lines (journal (outcome_world (memory_alloc_aligned Posix 0x1000000000 0xFBFFFFFFFF
      (Refuse 12) (fresh_region 0x10000 0x1000 7) 0 0x1000 ReadWrite 0x1000))) = []"
  by (simp add: memory_alloc_aligned_def is_win64_def os_calls Let_def fresh_region_def)

text \<open>
  C6, amended. When the native allocation fails, \<^verbatim>\<open>memory_alloc_aligned\<close> on
  Windows returns 0 and logs one line carrying the native error code, without halting; on
  the other targets it halts on its assertion and logs nothing.
\<close>

theorem C6_alloc_aligned_failure:
  "outcome_value (memory_alloc_aligned p umin umax (Refuse e) w address sz mode alignment) =
     (if is_win64 p then Inr 0 else Inl AssertionFailed)
   \<and> log_lines (new_events w
        (outcome_world (memory_alloc_aligned p umin umax (Refuse e) w address sz mode alignment))) =
     (if is_win64 p then [(''VirtualAlloc2() failed: 0x{:X}'', e)] else [])"
  by (simp add: memory_alloc_aligned_def os_calls Let_def new_events_def)

text \<open>
  C7 does not hold for an alignment that is not a power of two: for address 100 and
  alignment 3 the lower search bound requested is 100, which is not a multiple of 3.
\<close>

theorem C7_bound_not_a_multiple:
  "map lower_search_bound (native_calls (new_events (fresh_region 0x10000 0x1000 7)
      (outcome_world (memory_alloc_aligned Win64 0x1000000000 0xFBFFFFFFFF (Grant 0x1000000000)
         (fresh_region 0x10000 0x1000 7) 100 0x1000 ReadWrite 3)))) = [Some 100]
   \<and> AlignUp 100 3 = 100
   \<and> \<not> unat (3 :: u64) dvd unat (100 :: u64)"
  by (simp add: memory_alloc_aligned_def os_calls Let_def new_events_def fresh_region_def
      is_win64_def AlignUp_def)

text \<open>
  C7, amended. Every call of \<^verbatim>\<open>memory_alloc_aligned\<close> makes exactly one native call,
  an allocation request, on every target and whatever the system answers. Its lower search
  bound is \<^verbatim>\<open>USER_MIN\<close> when \<open>address\<close> is zero and \<open>AlignUp address alignment\<close>
  otherwise. For a non-zero address that is: the least multiple of \<open>alignment\<close> that is
  at least \<open>address\<close>, modulo \<open>2 ^ 64\<close>, when \<open>alignment\<close> is a power of two; and
  \<open>address\<close> itself when \<open>alignment\<close> is zero.
\<close>

theorem C7_lower_search_bound:
  "map lower_search_bound (native_calls (new_events w
      (outcome_world (memory_alloc_aligned p umin umax reply w address sz mode alignment)))) =
     [Some (if address = 0 then umin else AlignUp address alignment)]
   \<and> (address \<noteq> 0 \<and> alignment = 2 ^ k \<and> k < 64 \<longrightarrow>
        map lower_search_bound (native_calls (new_events w
          (outcome_world (memory_alloc_aligned p umin umax reply w address sz mode alignment)))) =
        [Some (word_of_nat (LEAST m. unat alignment dvd m \<and> unat address \<le> m))])
   \<and> (address \<noteq> 0 \<longrightarrow>
        map lower_search_bound (native_calls (new_events w
          (outcome_world (memory_alloc_aligned p umin umax reply w address sz mode 0)))) =
        [Some address])"
proof -
  have bound: "map lower_search_bound (native_calls (new_events w
      (outcome_world (memory_alloc_aligned p umin umax reply w address sz mode al)))) =
     [Some (if address = 0 then umin else AlignUp address al)]" for al
    by (cases reply) (simp_all add: memory_alloc_aligned_def os_calls Let_def new_events_def)
  show ?thesis
    by (simp add: bound AlignUp_pow2_least) (simp add: AlignUp_def)
qed

theorem C7_lower_search_bound_witness:
  "(5 :: u64) \<noteq> 0 \<and> (4096 :: u64) = 2 ^ 12 \<and> (12 :: nat) < 64
   \<and> map lower_search_bound (native_calls (new_events (fresh_region 0x10000 0x1000 7)
        (outcome_world (memory_alloc_aligned Win64 0x1000000000 0xFBFFFFFFFF (Grant 0x1000000000)
           (fresh_region 0x10000 0x1000 7) 5 0x1000 ReadWrite 4096)))) =
      [Some (word_of_nat (LEAST m. unat (4096 :: u64) dvd m \<and> unat (5 :: u64) \<le> m))]
   \<and> map lower_search_bound (native_calls (new_events (fresh_region 0x10000 0x1000 7)
        (outcome_world (memory_alloc_aligned Win64 0x1000000000 0xFBFFFFFFFF (Grant 0x1000000000)
           (fresh_region 0x10000 0x1000 7) 5 0x1000 ReadWrite 4096)))) = [Some 4096]
   \<and> map lower_search_bound (native_calls (new_events (fresh_region 0x10000 0x1000 7)
        (outcome_world (memory_alloc_aligned Win64 0x1000000000 0xFBFFFFFFFF (Grant 0x1000000000)
           (fresh_region 0x10000 0x1000 7) 5 0x1000 ReadWrite 0)))) = [Some 5]"
proof -
  have v: "map lower_search_bound (native_calls (new_events (fresh_region 0x10000 0x1000 7)
        (outcome_world (memory_alloc_aligned Win64 0x1000000000 0xFBFFFFFFFF (Grant 0x1000000000)
           (fresh_region 0x10000 0x1000 7) 5 0x1000 ReadWrite 4096)))) = [Some 4096]"
    by (simp add: memory_alloc_aligned_def os_calls Let_def new_events_def fresh_region_def
        is_win64_def AlignUp_def)
  have hyp: "(5 :: u64) \<noteq> 0 \<and> (4096 :: u64) = 2 ^ 12 \<and> (12 :: nat) < 64"
    by simp
  from C7_lower_search_bound [where w = "fresh_region 0x10000 0x1000 7" and p = Win64
        and umin = "0x1000000000" and umax = "0xFBFFFFFFFF" and reply = "Grant 0x1000000000"
        and address = 5 and sz = "0x1000" and mode = ReadWrite and alignment = 4096 and k = 12]
       hyp
  have "map lower_search_bound (native_calls (new_events (fresh_region 0x10000 0x1000 7)
        (outcome_world (memory_alloc_aligned Win64 0x1000000000 0xFBFFFFFFFF (Grant 0x1000000000)
           (fresh_region 0x10000 0x1000 7) 5 0x1000 ReadWrite 4096)))) =
      [Some (word_of_nat (LEAST m. unat (4096 :: u64) dvd m \<and> unat (5 :: u64) \<le> m))]
     \<and> map lower_search_bound (native_calls (new_events (fresh_region 0x10000 0x1000 7)
        (outcome_world (memory_alloc_aligned Win64 0x1000000000 0xFBFFFFFFFF (Grant 0x1000000000)
           (fresh_region 0x10000 0x1000 7) 5 0x1000 ReadWrite 0)))) = [Some 5]"
    by blast
  with v hyp show ?thesis by blast
qed

text \<open>
  C8. When the native protection change fails, \<^verbatim>\<open>memory_protect\<close> returns false on
  Windows and halts on its assertion on the other targets; so on those targets every call
  that returns, returns true.
\<close>

theorem C8_memory_protect_failure:
  "outcome_value (memory_protect Win64 (Refuse e) w address sz mode old_mode) = Inr (False, old_mode)
   \<and> (p \<noteq> Win64 \<longrightarrow>
        outcome_value (memory_protect p (Refuse e) w address sz mode old_mode) = Inl AssertionFailed
        \<and> (outcome_value (memory_protect p reply w address sz mode old_mode) = Inr (b, old_mode')
            \<longrightarrow> b))"
  by (cases reply) (auto simp add: memory_protect_def is_win64_def os_calls Let_def)

theorem C8_memory_protect_failure_witness:
  "Posix \<noteq> Win64
   \<and> outcome_value (memory_protect Posix (Grant ()) (fresh_region 0x10000 0x1000 7)
        0x10000 0x1000 Read None) = Inr (True, None)
   \<and> outcome_value (memory_protect Posix (Refuse 13) (fresh_region 0x10000 0x1000 7)
        0x10000 0x1000 Read None) = Inl AssertionFailed
   \<and> outcome_value (memory_protect Win64 (Refuse 5) (fresh_region 0x10000 0x1000 7)
        0x10000 0x1000 Read None) = Inr (False, None)"
proof -
  have h: "outcome_value (memory_protect Posix (Grant ()) (fresh_region 0x10000 0x1000 7)
        0x10000 0x1000 Read None) = Inr (True, None)"
    by (simp add: memory_protect_def is_win64_def os_calls Let_def)
  from C8_memory_protect_failure [where e = 5 and w = "fresh_region 0x10000 0x1000 7"
        and address = "0x10000" and sz = "0x1000" and mode = Read and old_mode = None
        and p = Posix and reply = "Grant ()" and b = True and old_mode' = None]
       C8_memory_protect_failure [where e = 13 and w = "fresh_region 0x10000 0x1000 7"
        and address = "0x10000" and sz = "0x1000" and mode = Read and old_mode = None
        and p = Posix and reply = "Grant ()" and b = True and old_mode' = None] h
  show ?thesis by simp
qed

end
